theory Spec2Isabelle
  imports Complex_Main
begin

section \<open>The video player component (client/src/pages/video-player.tsx)\<close>

text \<open>
  The component keeps its playback status in independent React state variables and drives
  an HTMLVideoElement through a ref. JavaScript numbers are modelled as reals (finite
  values). The two divisions of the source are made explicit where the divisor can be 0:
  the division by the width of the progress bar is an error branch of the seek handler, and
  the quotient of the progress percentage is a value that records a non-finite result.
\<close>

subsection \<open>Platform objects\<close>

text \<open>The methods the component invokes on the media element, in the order of the calls.\<close>

datatype el_call = CallPlay | CallPause | CallLoad

text \<open>The part of HTMLVideoElement the component reads and writes. The fields hold the
  values the handlers assign.\<close>

record video_element =
  el_currentTime :: real
  el_duration :: real
  el_volume :: real
  el_muted :: bool
  el_calls :: "el_call list"

text \<open>The bounding rectangle of the progress bar (getBoundingClientRect).\<close>

record rect =
  rect_left :: real
  rect_width :: real

text \<open>How a promise returned by the platform settles.\<close>

datatype promise = Fulfilled | Rejected

text \<open>What the platform answers to the requests of one handler: the outcome of
  \<^verbatim>\<open>play()\<close>, the outcome of \<^verbatim>\<open>requestFullscreen()\<close> or \<^verbatim>\<open>exitFullscreen()\<close>, and whether
  \<^verbatim>\<open>document.fullscreenElement\<close> is set.\<close>

record platform =
  play_result :: promise
  fullscreen_result :: promise
  fullscreenElement :: bool

text \<open>A timer made by \<^verbatim>\<open>setTimeout\<close> in \<^verbatim>\<open>showControlsTemporarily\<close>: its callback closes
  over the value \<^verbatim>\<open>isPlaying\<close> had when the timer was made; a timer that fired or was
  cleared is no longer pending.\<close>

datatype timeout = Timeout (closure_isPlaying: bool) (pending: bool)

datatype js_error = TypeError

subsection \<open>Component state\<close>

text \<open>Lines 5-16: the two refs and the state variables; \<open>console\<close> collects the messages
  of \<^verbatim>\<open>console.error\<close>, \<open>unhandledRejections\<close> counts the rejected promises that no
  handler was attached to.\<close>

record player =
  videoRef :: "video_element option"
  progressBarRef :: "rect option"
  isLoading :: bool
  hasError :: bool
  isPlaying :: bool
  isMuted :: bool
  currentTime :: real
  duration :: real
  volume :: real
  isFullscreen :: bool
  showControls :: bool
  controlsTimeout :: "timeout option"
  console :: "string list"
  unhandledRejections :: nat

text \<open>The values given to \<^verbatim>\<open>useState\<close>, with the refs attached to the rendered elements.\<close>

definition initial :: "video_element \<Rightarrow> rect \<Rightarrow> player" where
  "initial v r =
     \<lparr> videoRef = Some v, progressBarRef = Some r,
       isLoading = True, hasError = False, isPlaying = False, isMuted = True,
       currentTime = 0, duration = 0, volume = 1,
       isFullscreen = False, showControls = False, controlsTimeout = None,
       console = [], unhandledRejections = 0 \<rparr>"

text \<open>Lines 184-188: the effect that depends on \<^verbatim>\<open>isPlaying\<close>. It runs after the first
  render and after every render in which \<^verbatim>\<open>isPlaying\<close> differs from its previous value
  \<open>prev\<close>.\<close>

definition effectIsPlaying :: "bool \<Rightarrow> player \<Rightarrow> player" where
  "effectIsPlaying prev s =
     (if isPlaying s \<noteq> prev then (if \<not> isPlaying s then s\<lparr>showControls := True\<rparr> else s)
      else s)"

text \<open>The state after mounting: the initial values, then the effects of the first render.\<close>

definition mount :: "video_element \<Rightarrow> rect \<Rightarrow> player" where
  "mount v r = (let s = initial v r in if \<not> isPlaying s then s\<lparr>showControls := True\<rparr> else s)"

subsection \<open>Handlers of the native media events\<close>

definition handleLoadStart :: "player \<Rightarrow> player" where
  "handleLoadStart s = s\<lparr>isLoading := True, hasError := False\<rparr>"

text \<open>Lines 29-39. The callback given to \<^verbatim>\<open>catch\<close> runs when the promise of
  \<^verbatim>\<open>play()\<close> is rejected.\<close>

definition handleCanPlay :: "platform \<Rightarrow> player \<Rightarrow> player" where
  "handleCanPlay env s =
     (let s1 = s\<lparr>isLoading := False\<rparr> in
      case videoRef s1 of
        None \<Rightarrow> s1
      | Some v \<Rightarrow>
          (let s2 = s1\<lparr>duration := el_duration v,
                       videoRef := Some (v\<lparr>el_calls := el_calls v @ [CallPlay]\<rparr>)\<rparr> in
           case play_result env of
             Rejected \<Rightarrow> s2\<lparr>hasError := True, isLoading := False\<rparr>
           | Fulfilled \<Rightarrow> s2))"

definition handleError :: "player \<Rightarrow> player" where
  "handleError s = s\<lparr>isLoading := False, hasError := True\<rparr>"

definition handlePlay :: "player \<Rightarrow> player" where
  "handlePlay s = effectIsPlaying (isPlaying s) (s\<lparr>isPlaying := True\<rparr>)"

definition handlePause :: "player \<Rightarrow> player" where
  "handlePause s = effectIsPlaying (isPlaying s) (s\<lparr>isPlaying := False\<rparr>)"

definition handleTimeUpdate :: "player \<Rightarrow> player" where
  "handleTimeUpdate s =
     (case videoRef s of None \<Rightarrow> s | Some v \<Rightarrow> s\<lparr>currentTime := el_currentTime v\<rparr>)"

text \<open>Lines 173-182: the listener of \<^verbatim>\<open>fullscreenchange\<close>.\<close>

definition handleFullscreenChange :: "platform \<Rightarrow> player \<Rightarrow> player" where
  "handleFullscreenChange env s = s\<lparr>isFullscreen := fullscreenElement env\<rparr>"

subsection \<open>Transport commands\<close>

text \<open>Lines 60-68. The function reads \<^verbatim>\<open>isPlaying\<close> from the closure of the render that
  built it: \<open>p\<close> is that value. No handler is attached to the promise of \<^verbatim>\<open>play()\<close>.\<close>

definition togglePlayPauseWith :: "bool \<Rightarrow> platform \<Rightarrow> player \<Rightarrow> player" where
  "togglePlayPauseWith p env s =
     (case videoRef s of
        None \<Rightarrow> s
      | Some v \<Rightarrow>
          (if p then s\<lparr>videoRef := Some (v\<lparr>el_calls := el_calls v @ [CallPause]\<rparr>)\<rparr>
           else
             (let s1 = s\<lparr>videoRef := Some (v\<lparr>el_calls := el_calls v @ [CallPlay]\<rparr>)\<rparr> in
              case play_result env of
                Rejected \<Rightarrow> s1\<lparr>unhandledRejections := Suc (unhandledRejections s1)\<rparr>
              | Fulfilled \<Rightarrow> s1)))"

text \<open>The buttons and the click overlay call the function of the latest render.\<close>

definition togglePlayPause :: "platform \<Rightarrow> player \<Rightarrow> player" where
  "togglePlayPause env s = togglePlayPauseWith (isPlaying s) env s"

definition toggleMute :: "player \<Rightarrow> player" where
  "toggleMute s =
     (case videoRef s of
        None \<Rightarrow> s
      | Some v \<Rightarrow>
          (let v' = v\<lparr>el_muted := \<not> el_muted v\<rparr> in
           s\<lparr>videoRef := Some v', isMuted := el_muted v'\<rparr>))"

text \<open>Lines 77-85; \<open>newVolume\<close> is the parsed value of the range input (min 0, max 1).\<close>

definition handleVolumeChange :: "real \<Rightarrow> player \<Rightarrow> player" where
  "handleVolumeChange newVolume s =
     (let s1 = s\<lparr>volume := newVolume\<rparr> in
      case videoRef s1 of
        None \<Rightarrow> s1
      | Some v \<Rightarrow>
          s1\<lparr>videoRef := Some (v\<lparr>el_volume := newVolume, el_muted := False\<rparr>),
             isMuted := False\<rparr>)"

text \<open>Lines 87-94. With a bar of width 0 the quotient is infinite or NaN in JavaScript, and
  so is its product with the duration; the setter of \<^verbatim>\<open>currentTime\<close> throws a TypeError
  for a non-finite value.\<close>

definition handleSeek :: "real \<Rightarrow> player \<Rightarrow> js_error + player" where
  "handleSeek clientX s =
     (case (progressBarRef s, videoRef s) of
        (Some r, Some v) \<Rightarrow>
          (let clickX = clientX - rect_left r in
           if rect_width r = 0 then Inl TypeError
           else
             (let progress = clickX / rect_width r in
              Inr (s\<lparr>videoRef := Some (v\<lparr>el_currentTime := progress * duration s\<rparr>)\<rparr>)))
      | _ \<Rightarrow> Inr s)"

text \<open>Lines 96-114. A rejected request reaches the \<^verbatim>\<open>catch\<close> block, which logs.\<close>

definition toggleFullscreen :: "platform \<Rightarrow> player \<Rightarrow> player" where
  "toggleFullscreen env s =
     (if \<not> fullscreenElement env then
        (case fullscreen_result env of
           Fulfilled \<Rightarrow> s\<lparr>isFullscreen := True\<rparr>
         | Rejected \<Rightarrow>
             s\<lparr>console := console s @ [''Error attempting to enable fullscreen:'']\<rparr>)
      else
        (case fullscreen_result env of
           Fulfilled \<Rightarrow> s\<lparr>isFullscreen := False\<rparr>
         | Rejected \<Rightarrow>
             s\<lparr>console := console s @ [''Error attempting to exit fullscreen:'']\<rparr>))"

definition handleRetry :: "player \<Rightarrow> player" where
  "handleRetry s =
     (let s1 = s\<lparr>hasError := False, isLoading := True\<rparr> in
      case videoRef s1 of
        None \<Rightarrow> s1
      | Some v \<Rightarrow> s1\<lparr>videoRef := Some (v\<lparr>el_calls := el_calls v @ [CallLoad]\<rparr>)\<rparr>)"

subsection \<open>The auto-hide timer\<close>

text \<open>Lines 124-135. The previous timer is cleared and replaced by a new one, which keeps
  the \<^verbatim>\<open>isPlaying\<close> of the render that built the function.\<close>

definition showControlsTemporarily :: "player \<Rightarrow> player" where
  "showControlsTemporarily s =
     s\<lparr>showControls := True, controlsTimeout := Some (Timeout (isPlaying s) True)\<rparr>"

definition handleMouseMove :: "player \<Rightarrow> player" where
  "handleMouseMove s = showControlsTemporarily s"

text \<open>Lines 129-133: the callback of the timer, run when the 3000 ms have passed and the
  timer was not cleared.\<close>

definition timerFire :: "player \<Rightarrow> player" where
  "timerFire s =
     (case controlsTimeout s of
        None \<Rightarrow> s
      | Some (Timeout p live) \<Rightarrow>
          (if live then
             (let s1 = s\<lparr>controlsTimeout := Some (Timeout p False)\<rparr> in
              if p then s1\<lparr>showControls := False\<rparr> else s1)
           else s))"

subsection \<open>Keyboard\<close>

datatype key_code = Space | KeyM | KeyF | ArrowLeft | ArrowRight | OtherKey

text \<open>Lines 141-164. The callback is rebuilt only when \<^verbatim>\<open>duration\<close> changes, so the
  \<^verbatim>\<open>togglePlayPause\<close> it calls may be that of an earlier render: \<open>p\<close> is the
  \<^verbatim>\<open>isPlaying\<close> that render had.\<close>

definition handleKeyDown :: "key_code \<Rightarrow> bool \<Rightarrow> platform \<Rightarrow> player \<Rightarrow> player" where
  "handleKeyDown code p env s =
     (case code of
        Space \<Rightarrow> togglePlayPauseWith p env s
      | KeyM \<Rightarrow> toggleMute s
      | KeyF \<Rightarrow> toggleFullscreen env s
      | ArrowLeft \<Rightarrow>
          (case videoRef s of
             None \<Rightarrow> s
           | Some v \<Rightarrow>
               s\<lparr>videoRef := Some (v\<lparr>el_currentTime := max 0 (el_currentTime v - 10)\<rparr>)\<rparr>)
      | ArrowRight \<Rightarrow>
          (case videoRef s of
             None \<Rightarrow> s
           | Some v \<Rightarrow>
               s\<lparr>videoRef :=
                   Some (v\<lparr>el_currentTime := min (duration s) (el_currentTime v + 10)\<rparr>)\<rparr>)
      | OtherKey \<Rightarrow> s)"

subsection \<open>What is rendered\<close>

text \<open>The result of a JavaScript division: a finite number, or a non-finite one (NaN or an
  infinity) when the divisor is 0.\<close>

datatype js_number = Finite real | NonFinite

definition js_divide :: "real \<Rightarrow> real \<Rightarrow> js_number" where
  "js_divide x y = (if y = 0 then NonFinite else Finite (x / y))"

text \<open>The product with a finite non-zero factor: a non-finite number stays non-finite.\<close>

definition js_times :: "js_number \<Rightarrow> real \<Rightarrow> js_number" where
  "js_times a y = (case a of Finite x \<Rightarrow> Finite (x * y) | NonFinite \<Rightarrow> NonFinite)"

text \<open>Line 198.\<close>

definition progressPercentage :: "player \<Rightarrow> js_number" where
  "progressPercentage s =
     (if duration s > 0 then js_times (js_divide (currentTime s) (duration s)) 100
      else Finite 0)"

text \<open>Line 258: the overlay of the controls is opaque.\<close>

definition controlsVisible :: "player \<Rightarrow> bool" where
  "controlsVisible s = (showControls s \<or> \<not> isPlaying s)"


subsection \<open>Event sequences\<close>

text \<open>The events of the media element, of the document and of the timer.\<close>

datatype native_event =
    LoadStart
  | CanPlay platform
  | MediaError
  | PlayEvent
  | PauseEvent
  | TimeUpdate
  | FullscreenChange platform
  | TimerFire

text \<open>What the user can do: the buttons, the slider, the progress bar (with the pointer's
  \<^verbatim>\<open>clientX\<close>), the pointer and the keyboard.\<close>

datatype command =
    ClickPlayPause platform
  | ClickMute
  | VolumeInput real
  | ClickProgress real
  | ClickFullscreen platform
  | ClickRetry
  | MouseMove
  | TouchStart
  | KeyDown key_code bool platform

datatype event = Native native_event | Command command

fun on_native :: "native_event \<Rightarrow> player \<Rightarrow> player" where
  "on_native LoadStart s = handleLoadStart s"
| "on_native (CanPlay env) s = handleCanPlay env s"
| "on_native MediaError s = handleError s"
| "on_native PlayEvent s = handlePlay s"
| "on_native PauseEvent s = handlePause s"
| "on_native TimeUpdate s = handleTimeUpdate s"
| "on_native (FullscreenChange env) s = handleFullscreenChange env s"
| "on_native TimerFire s = timerFire s"

text \<open>An exception thrown in a handler leaves the state as it was.\<close>

fun on_command :: "command \<Rightarrow> player \<Rightarrow> player" where
  "on_command (ClickPlayPause env) s = togglePlayPause env s"
| "on_command ClickMute s = toggleMute s"
| "on_command (VolumeInput x) s = handleVolumeChange x s"
| "on_command (ClickProgress x) s = (case handleSeek x s of Inl e \<Rightarrow> s | Inr s' \<Rightarrow> s')"
| "on_command (ClickFullscreen env) s = toggleFullscreen env s"
| "on_command ClickRetry s = handleRetry s"
| "on_command MouseMove s = handleMouseMove s"
| "on_command TouchStart s = showControlsTemporarily s"
| "on_command (KeyDown code p env) s = handleKeyDown code p env s"

fun step :: "event \<Rightarrow> player \<Rightarrow> player" where
  "step (Native e) s = on_native e s"
| "step (Command c) s = on_command c s"

fun run :: "event list \<Rightarrow> player \<Rightarrow> player" where
  "run [] s = s"
| "run (e # es) s = run es (step e s)"

text \<open>A media element and a progress bar for the concrete runs below: a muted element at
  time 0 with a clip of 120 seconds, and a bar 400 pixels wide that starts at x = 100.\<close>

definition sample_video :: video_element where
  "sample_video =
     \<lparr> el_currentTime = 0, el_duration = 120, el_volume = 1, el_muted = True, el_calls = [] \<rparr>"

definition sample_rect :: rect where
  "sample_rect = \<lparr> rect_left = 100, rect_width = 400 \<rparr>"

definition accepts :: platform where
  "accepts = \<lparr> play_result = Fulfilled, fullscreen_result = Fulfilled, fullscreenElement = False \<rparr>"

definition rejects :: platform where
  "rejects = \<lparr> play_result = Rejected, fullscreen_result = Rejected, fullscreenElement = False \<rparr>"

section \<open>Properties\<close>

subsection \<open>The flags along every run\<close>

lemma on_native_exclusive:
  "\<not> (isLoading s \<and> hasError s) \<Longrightarrow> \<not> (isLoading (on_native e s) \<and> hasError (on_native e s))"
  by (cases e)
     (auto simp: handleLoadStart_def handleCanPlay_def handleError_def handlePlay_def
                 handlePause_def handleTimeUpdate_def handleFullscreenChange_def timerFire_def
                 effectIsPlaying_def Let_def
           split: option.splits promise.splits timeout.splits if_splits)

lemma handleKeyDown_flags:
  "isLoading (handleKeyDown code p env s) = isLoading s
   \<and> hasError (handleKeyDown code p env s) = hasError s"
  by (cases code)
     (auto simp: handleKeyDown_def togglePlayPauseWith_def toggleMute_def toggleFullscreen_def
                 Let_def
           split: option.splits promise.splits)



lemma on_command_exclusive:
  "\<not> (isLoading s \<and> hasError s) \<Longrightarrow> \<not> (isLoading (on_command c s) \<and> hasError (on_command c s))"
  by (cases c)
     (auto simp: togglePlayPause_def togglePlayPauseWith_def toggleMute_def
                 handleVolumeChange_def handleSeek_def toggleFullscreen_def handleRetry_def
                 handleMouseMove_def showControlsTemporarily_def handleKeyDown_flags Let_def
           split: option.splits promise.splits if_splits)

lemma step_exclusive:
  "\<not> (isLoading s \<and> hasError s) \<Longrightarrow> \<not> (isLoading (step e s) \<and> hasError (step e s))"
  by (cases e) (simp_all add: on_native_exclusive on_command_exclusive)

lemma run_exclusive:
  "\<not> (isLoading s \<and> hasError s) \<Longrightarrow> \<not> (isLoading (run es s) \<and> hasError (run es s))"
proof (induction es arbitrary: s)
  case Nil
  then show ?case by simp
next
  case (Cons e es)
  from Cons.prems have "\<not> (isLoading (step e s) \<and> hasError (step e s))"
    by (rule step_exclusive)
  then show ?case using Cons.IH by simp
qed

subsection \<open>Facts about the mounted component\<close>

lemma mount_flags: "isLoading (mount v r) \<and> \<not> hasError (mount v r) \<and> \<not> isPlaying (mount v r)"
  by (simp add: mount_def initial_def)

lemma mount_refs: "videoRef (mount v r) = Some v \<and> progressBarRef (mount v r) = Some r"
  by (simp add: mount_def initial_def)

lemma fraction_beyond_bar: 
  fixes x l w d :: real
  assumes "0 < w" "l + w < x" "0 < d"
  shows "d < ((x - l) / w) * d"
proof -
  from assms have "1 < (x - l) / w" by simp
  then have "1 * d < ((x - l) / w) * d"
    using assms(3) by (rule mult_strict_right_mono)
  then show ?thesis by simp
qed

subsection \<open>C1: the playback flags\<close>

text \<open>C1, as stated, fails: after a \<^verbatim>\<open>play\<close> event followed by an \<^verbatim>\<open>error\<close> event the
  playing flag and the error flag are both set, since \<^verbatim>\<open>handleError\<close> does not touch
  \<^verbatim>\<open>isPlaying\<close>.\<close>

theorem playing_and_errored_counterexample:
  "isPlaying (run [Native PlayEvent, Native MediaError] (mount sample_video sample_rect))
   \<and> hasError (run [Native PlayEvent, Native MediaError] (mount sample_video sample_rect))"
  by (simp add: mount_def initial_def handlePlay_def handleError_def effectIsPlaying_def)

text \<open>C1, amended: along every sequence of native events and user commands from the mounted
  component the loading flag and the error flag are never both set; \<^verbatim>\<open>onError\<close> sets the
  error flag, clears the loading flag and leaves the playing flag as it was.\<close>

theorem loading_errored_exclusive:
  "\<not> (isLoading (run es (mount v r)) \<and> hasError (run es (mount v r)))
   \<and> hasError (handleError s) \<and> \<not> isLoading (handleError s)
   \<and> isPlaying (handleError s) = isPlaying s"
proof -
  have "\<not> (isLoading (mount v r) \<and> hasError (mount v r))"
    using mount_flags by simp
  then have "\<not> (isLoading (run es (mount v r)) \<and> hasError (run es (mount v r)))"
    by (rule run_exclusive)
  then show ?thesis by (simp add: handleError_def)
qed

theorem loading_errored_exclusive_witness:
  "\<not> (isLoading (run [Native PlayEvent, Native MediaError, Command ClickRetry]
                     (mount sample_video sample_rect))
        \<and> hasError (run [Native PlayEvent, Native MediaError, Command ClickRetry]
                       (mount sample_video sample_rect)))
   \<and> hasError (handleError (mount sample_video sample_rect))
   \<and> \<not> isLoading (handleError (mount sample_video sample_rect))
   \<and> \<not> isPlaying (handleError (mount sample_video sample_rect))"
  using loading_errored_exclusive
          [of "[Native PlayEvent, Native MediaError, Command ClickRetry]"
              sample_video sample_rect "mount sample_video sample_rect"]
  by (simp add: mount_flags)

subsection \<open>C2: autoplay on canplay\<close>

text \<open>C2: when \<^verbatim>\<open>canplay\<close> fires while loading and the element is mounted, the loading flag
  is cleared, the duration is taken from the element and \<^verbatim>\<open>play()\<close> is called on it; when
  the promise is rejected the error flag is set.\<close>

theorem handleCanPlay_autoplay:
  assumes "isLoading s" and "videoRef s = Some v"
  shows "\<not> isLoading (handleCanPlay env s)
         \<and> duration (handleCanPlay env s) = el_duration v
         \<and> videoRef (handleCanPlay env s) = Some (v\<lparr>el_calls := el_calls v @ [CallPlay]\<rparr>)
         \<and> (play_result env = Rejected \<longrightarrow> hasError (handleCanPlay env s))
         \<and> (play_result env = Fulfilled \<longrightarrow> hasError (handleCanPlay env s) = hasError s)"
  using assms by (simp add: handleCanPlay_def Let_def split: promise.splits)

theorem handleCanPlay_autoplay_witness:
  "isLoading (mount sample_video sample_rect)
   \<and> videoRef (mount sample_video sample_rect) = Some sample_video
   \<and> play_result rejects = Rejected
   \<and> \<not> isLoading (handleCanPlay rejects (mount sample_video sample_rect))
   \<and> duration (handleCanPlay rejects (mount sample_video sample_rect)) = 120
   \<and> hasError (handleCanPlay rejects (mount sample_video sample_rect))"
proof -
  have a: "isLoading (mount sample_video sample_rect)"
    by (simp add: mount_flags)
  have b: "videoRef (mount sample_video sample_rect) = Some sample_video"
    by (simp add: mount_refs)
  have c: "play_result rejects = Rejected"
    by (simp add: rejects_def)
  from handleCanPlay_autoplay [OF a b, of rejects] a b c show ?thesis
    by (simp add: sample_video_def)
qed

subsection \<open>C3: retry\<close>




subsection \<open>C4: the auto-hide timer\<close>

text \<open>C4 does not hold of the code: the callback of the timer tests the \<^verbatim>\<open>isPlaying\<close> of the
  render in which the pointer last moved. When the pointer moves before playback starts and
  then rests, the timer fires during playback and the controls stay shown.\<close>

theorem stale_timer_keeps_controls:
  "isPlaying (run [Command MouseMove, Native PlayEvent, Native TimerFire]
                (mount sample_video sample_rect))
   \<and> controlsTimeout (run [Command MouseMove, Native PlayEvent, Native TimerFire]
                (mount sample_video sample_rect)) = Some (Timeout False False)
   \<and> showControls (run [Command MouseMove, Native PlayEvent, Native TimerFire]
                (mount sample_video sample_rect))
   \<and> controlsVisible (run [Command MouseMove, Native PlayEvent, Native TimerFire]
                (mount sample_video sample_rect))"
  by (simp add: mount_def initial_def handleMouseMove_def showControlsTemporarily_def
                handlePlay_def effectIsPlaying_def timerFire_def controlsVisible_def)

subsection \<open>C5: seeking with the progress bar\<close>

text \<open>C5: a click on the progress bar (both elements mounted, the bar of non-zero width)
  assigns to the element's \<^verbatim>\<open>currentTime\<close> the fraction of the bar at the pointer times the
  stored duration. The fraction is not clamped: a click beyond the right end of the bar asks
  for a time after the end. With a duration of 120 a click at the midpoint assigns 60.\<close>

theorem handleSeek_fraction:
  assumes "progressBarRef s = Some r" and "videoRef s = Some v" and "rect_width r \<noteq> 0"
  shows "handleSeek clientX s =
           Inr (s\<lparr>videoRef :=
                    Some (v\<lparr>el_currentTime :=
                              ((clientX - rect_left r) / rect_width r) * duration s\<rparr>)\<rparr>)
         \<and> (0 < rect_width r \<and> rect_left r + rect_width r < clientX \<and> 0 < duration s \<longrightarrow>
              duration s < ((clientX - rect_left r) / rect_width r) * duration s)
         \<and> (duration s = 120 \<and> clientX = rect_left r + rect_width r / 2 \<longrightarrow>
              handleSeek clientX s = Inr (s\<lparr>videoRef := Some (v\<lparr>el_currentTime := 60\<rparr>)\<rparr>))"
proof -
  have "duration s < ((clientX - rect_left r) / rect_width r) * duration s"
    if "0 < rect_width r" "rect_left r + rect_width r < clientX" "0 < duration s"
    using that by (rule fraction_beyond_bar)
  moreover have "handleSeek clientX s =
      Inr (s\<lparr>videoRef :=
               Some (v\<lparr>el_currentTime :=
                         ((clientX - rect_left r) / rect_width r) * duration s\<rparr>)\<rparr>)"
    using assms by (simp add: handleSeek_def Let_def)
  moreover have "handleSeek clientX s = Inr (s\<lparr>videoRef := Some (v\<lparr>el_currentTime := 60\<rparr>)\<rparr>)"
    if "duration s = 120" "clientX = rect_left r + rect_width r / 2"
    using that assms by (simp add: handleSeek_def Let_def)
  ultimately show ?thesis by blast
qed

theorem handleSeek_fraction_witness:
  "progressBarRef ((mount sample_video sample_rect)\<lparr>duration := 120\<rparr>) = Some sample_rect
   \<and> videoRef ((mount sample_video sample_rect)\<lparr>duration := 120\<rparr>) = Some sample_video
   \<and> rect_width sample_rect \<noteq> 0
   \<and> handleSeek 300 ((mount sample_video sample_rect)\<lparr>duration := 120\<rparr>)
       = Inr ((mount sample_video sample_rect)
                \<lparr>duration := 120, videoRef := Some (sample_video\<lparr>el_currentTime := 60\<rparr>)\<rparr>)
   \<and> handleSeek 700 ((mount sample_video sample_rect)\<lparr>duration := 120\<rparr>)
       = Inr ((mount sample_video sample_rect)
                \<lparr>duration := 120, videoRef := Some (sample_video\<lparr>el_currentTime := 180\<rparr>)\<rparr>)"
proof -
  let ?s = "(mount sample_video sample_rect)\<lparr>duration := 120\<rparr>"
  have a: "progressBarRef ?s = Some sample_rect"
    by (simp add: mount_refs)
  have b: "videoRef ?s = Some sample_video"
    by (simp add: mount_refs)
  have c: "rect_width sample_rect \<noteq> 0"
    by (simp add: sample_rect_def)
  from handleSeek_fraction [OF a b c, of 300] handleSeek_fraction [OF a b c, of 700] a b c
  show ?thesis
    by (simp add: sample_rect_def)
qed

subsection \<open>C6: seeking with the arrow keys\<close>

text \<open>C6: with the element mounted at time t and the stored duration d, the Right arrow assigns
  min d (t + 10) and the Left arrow assigns max 0 (t - 10) to the element's \<^verbatim>\<open>currentTime\<close>;
  from a time between 0 and d both results lie between 0 and d; at t = 115 and d = 120 the
  Right arrow assigns 120.\<close>

theorem arrow_keys_clamped:
  assumes "videoRef s = Some v"
  shows "handleKeyDown ArrowRight p env s =
           s\<lparr>videoRef := Some (v\<lparr>el_currentTime := min (duration s) (el_currentTime v + 10)\<rparr>)\<rparr>
         \<and> handleKeyDown ArrowLeft p env s =
           s\<lparr>videoRef := Some (v\<lparr>el_currentTime := max 0 (el_currentTime v - 10)\<rparr>)\<rparr>
         \<and> (0 \<le> el_currentTime v \<and> el_currentTime v \<le> duration s \<longrightarrow>
              0 \<le> min (duration s) (el_currentTime v + 10)
              \<and> min (duration s) (el_currentTime v + 10) \<le> duration s
              \<and> 0 \<le> max 0 (el_currentTime v - 10)
              \<and> max 0 (el_currentTime v - 10) \<le> duration s)
         \<and> (el_currentTime v = 115 \<and> duration s = 120 \<longrightarrow>
              handleKeyDown ArrowRight p env s =
                s\<lparr>videoRef := Some (v\<lparr>el_currentTime := 120\<rparr>)\<rparr>)"
  using assms by (auto simp: handleKeyDown_def)

theorem arrow_keys_clamped_witness:
  "videoRef ((mount (sample_video\<lparr>el_currentTime := 115\<rparr>) sample_rect)\<lparr>duration := 120\<rparr>)
     = Some (sample_video\<lparr>el_currentTime := 115\<rparr>)
   \<and> handleKeyDown ArrowRight False accepts
        ((mount (sample_video\<lparr>el_currentTime := 115\<rparr>) sample_rect)\<lparr>duration := 120\<rparr>)
     = (mount (sample_video\<lparr>el_currentTime := 115\<rparr>) sample_rect)
         \<lparr>duration := 120, videoRef := Some (sample_video\<lparr>el_currentTime := 120\<rparr>)\<rparr>
   \<and> handleKeyDown ArrowLeft False accepts
        ((mount (sample_video\<lparr>el_currentTime := 115\<rparr>) sample_rect)\<lparr>duration := 120\<rparr>)
     = (mount (sample_video\<lparr>el_currentTime := 115\<rparr>) sample_rect)
         \<lparr>duration := 120, videoRef := Some (sample_video\<lparr>el_currentTime := 105\<rparr>)\<rparr>"
proof -
  let ?s = "(mount (sample_video\<lparr>el_currentTime := 115\<rparr>) sample_rect)\<lparr>duration := 120\<rparr>"
  have a: "videoRef ?s = Some (sample_video\<lparr>el_currentTime := 115\<rparr>)"
    by (simp add: mount_refs)
  from arrow_keys_clamped [OF a, of False accepts] a show ?thesis
    by simp
qed

subsection \<open>C7: mute and volume\<close>

text \<open>C7: with the element mounted, setting the volume to 0.5 and toggling mute twice leaves the
  player unmuted with volume 0.5, in the state and on the element; \<^verbatim>\<open>toggleMute\<close> never
  changes the volume; a volume change from the slider unmutes.\<close>

theorem mute_keeps_volume:
  assumes "videoRef s = Some v"
  shows "\<not> isMuted (toggleMute (toggleMute (handleVolumeChange (1/2) s)))
         \<and> volume (toggleMute (toggleMute (handleVolumeChange (1/2) s))) = 1/2
         \<and> videoRef (toggleMute (toggleMute (handleVolumeChange (1/2) s)))
             = Some (v\<lparr>el_volume := 1/2, el_muted := False\<rparr>)
         \<and> volume (toggleMute s) = volume s
         \<and> videoRef (toggleMute s) = Some (v\<lparr>el_muted := \<not> el_muted v\<rparr>)
         \<and> isMuted (toggleMute s) = (\<not> el_muted v)
         \<and> (0 \<le> x \<and> x \<le> 1 \<longrightarrow>
              \<not> isMuted (handleVolumeChange x s)
              \<and> volume (handleVolumeChange x s) = x
              \<and> videoRef (handleVolumeChange x s) = Some (v\<lparr>el_volume := x, el_muted := False\<rparr>))"
  using assms by (simp add: toggleMute_def handleVolumeChange_def Let_def)

theorem mute_keeps_volume_witness:
  "videoRef (mount sample_video sample_rect) = Some sample_video
   \<and> isMuted (mount sample_video sample_rect)
   \<and> isMuted (toggleMute (handleVolumeChange (1/2) (mount sample_video sample_rect)))
   \<and> \<not> isMuted (toggleMute (toggleMute (handleVolumeChange (1/2) (mount sample_video sample_rect))))
   \<and> volume (toggleMute (toggleMute (handleVolumeChange (1/2) (mount sample_video sample_rect)))) = 1/2
   \<and> videoRef (toggleMute (toggleMute (handleVolumeChange (1/2) (mount sample_video sample_rect))))
       = Some (sample_video\<lparr>el_volume := 1/2, el_muted := False\<rparr>)"
proof -
  have a: "videoRef (mount sample_video sample_rect) = Some sample_video"
    by (simp add: mount_refs)
  have b: "isMuted (mount sample_video sample_rect)"
    by (simp add: mount_def initial_def)
  have c: "isMuted (toggleMute (handleVolumeChange (1/2) (mount sample_video sample_rect)))"
    by (simp add: toggleMute_def handleVolumeChange_def mount_refs Let_def)
  from mute_keeps_volume [OF a, of "1/2"] a b c show ?thesis
    by simp
qed

subsection \<open>C8: fullscreen\<close>

text \<open>C8: when the fullscreen request or exit is rejected, \<^verbatim>\<open>toggleFullscreen\<close> only appends a
  message to the console: \<^verbatim>\<open>isFullscreen\<close> and the playback flags are as before. It
  changes \<^verbatim>\<open>isFullscreen\<close> only when the request was fulfilled.\<close>

theorem fullscreen_rejection_logged:
  assumes "fullscreen_result env = Rejected"
  shows "toggleFullscreen env s =
           s\<lparr>console := console s @
               [if fullscreenElement env then ''Error attempting to exit fullscreen:''
                else ''Error attempting to enable fullscreen:'']\<rparr>
         \<and> isFullscreen (toggleFullscreen env s) = isFullscreen s
         \<and> isLoading (toggleFullscreen env s) = isLoading s
         \<and> hasError (toggleFullscreen env s) = hasError s
         \<and> isPlaying (toggleFullscreen env s) = isPlaying s
         \<and> (\<forall>env'. isFullscreen (toggleFullscreen env' s) \<noteq> isFullscreen s \<longrightarrow>
                fullscreen_result env' = Fulfilled)"
proof -
  have "fullscreen_result env' = Fulfilled"
    if "isFullscreen (toggleFullscreen env' s) \<noteq> isFullscreen s" for env'
    using that
    by (cases "fullscreen_result env'"; cases "fullscreenElement env'")
       (simp_all add: toggleFullscreen_def)
  then show ?thesis
    using assms by (simp add: toggleFullscreen_def)
qed

theorem fullscreen_rejection_logged_witness:
  "fullscreen_result rejects = Rejected
   \<and> toggleFullscreen rejects (mount sample_video sample_rect) =
       (mount sample_video sample_rect)\<lparr>console := [''Error attempting to enable fullscreen:'']\<rparr>
   \<and> \<not> isFullscreen (toggleFullscreen rejects (mount sample_video sample_rect))
   \<and> isFullscreen (toggleFullscreen accepts (mount sample_video sample_rect))"
proof -
  have a: "fullscreen_result rejects = Rejected"
    by (simp add: rejects_def)
  have b: "console (mount sample_video sample_rect) = []"
          "\<not> isFullscreen (mount sample_video sample_rect)"
          "\<not> fullscreenElement rejects"
    by (simp_all add: mount_def initial_def rejects_def)
  have c: "isFullscreen (toggleFullscreen accepts (mount sample_video sample_rect))"
    by (simp add: toggleFullscreen_def accepts_def)
  from fullscreen_rejection_logged [OF a, of "mount sample_video sample_rect"] a b c
  show ?thesis by simp
qed

subsection \<open>C9: rejected platform requests\<close>

text \<open>C9 does not hold of the code: \<^verbatim>\<open>togglePlayPause\<close> attaches no handler to the promise of
  \<^verbatim>\<open>play()\<close>. When the platform rejects it, neither the error flag nor the console
  changes, whereas the same rejection in \<^verbatim>\<open>handleCanPlay\<close> sets the error flag.\<close>

theorem toggle_play_rejection_dropped:
  "togglePlayPause rejects (mount sample_video sample_rect) =
     (mount sample_video sample_rect)
       \<lparr>videoRef := Some (sample_video\<lparr>el_calls := [CallPlay]\<rparr>), unhandledRejections := 1\<rparr>
   \<and> \<not> hasError (togglePlayPause rejects (mount sample_video sample_rect))
   \<and> console (togglePlayPause rejects (mount sample_video sample_rect)) = []
   \<and> hasError (handleCanPlay rejects (mount sample_video sample_rect))"
  by (simp add: togglePlayPause_def togglePlayPauseWith_def handleCanPlay_def mount_def
                initial_def rejects_def sample_video_def Let_def)

subsection \<open>C10: progress before the duration is known\<close>

text \<open>C10: the progress percentage is never the result of a division by zero: it is a
  finite number in every state, 0 while the stored duration is not positive (where the
  quotient itself would be non-finite at duration 0) and the percentage of the duration
  otherwise. With the stored duration 0 a click on the progress bar (both elements mounted,
  the bar of non-zero width) assigns 0 to the element's \<^verbatim>\<open>currentTime\<close> wherever the
  pointer is.\<close>

theorem progress_without_duration:
  "progressPercentage s \<noteq> NonFinite
   \<and> (duration s \<le> 0 \<longrightarrow> progressPercentage s = Finite 0)
   \<and> (duration s = 0 \<longrightarrow> js_times (js_divide (currentTime s) (duration s)) 100 = NonFinite)
   \<and> (0 < duration s \<longrightarrow>
        progressPercentage s = Finite (currentTime s / duration s * 100))
   \<and> (duration s = 0 \<and> progressBarRef s = Some r \<and> videoRef s = Some v
        \<and> rect_width r \<noteq> 0 \<longrightarrow>
        handleSeek clientX s = Inr (s\<lparr>videoRef := Some (v\<lparr>el_currentTime := 0\<rparr>)\<rparr>))"
proof -
  have finite: "progressPercentage s \<noteq> NonFinite"
    by (simp add: progressPercentage_def js_divide_def js_times_def)
  have zero: "progressPercentage s = Finite 0" if "duration s \<le> 0"
    using that by (simp add: progressPercentage_def)
  have unguarded: "js_times (js_divide (currentTime s) (duration s)) 100 = NonFinite"
    if "duration s = 0"
    using that by (simp add: js_divide_def js_times_def)
  have known: "progressPercentage s = Finite (currentTime s / duration s * 100)"
    if "0 < duration s"
    using that by (simp add: progressPercentage_def js_divide_def js_times_def)
  have seek: "handleSeek clientX s = Inr (s\<lparr>videoRef := Some (v\<lparr>el_currentTime := 0\<rparr>)\<rparr>)"
    if "duration s = 0" "progressBarRef s = Some r" "videoRef s = Some v" "rect_width r \<noteq> 0"
    using that by (simp add: handleSeek_def Let_def)
  from finite zero unguarded known seek show ?thesis by blast
qed

theorem progress_without_duration_witness:
  "duration ((mount (sample_video\<lparr>el_currentTime := 7\<rparr>) sample_rect)\<lparr>currentTime := 7\<rparr>) \<le> 0
   \<and> progressPercentage
        ((mount (sample_video\<lparr>el_currentTime := 7\<rparr>) sample_rect)\<lparr>currentTime := 7\<rparr>)
       = Finite 0
   \<and> js_divide 7 0 = NonFinite
   \<and> 0 < duration ((mount sample_video sample_rect)\<lparr>currentTime := 30, duration := 120\<rparr>)
   \<and> progressPercentage ((mount sample_video sample_rect)\<lparr>currentTime := 30, duration := 120\<rparr>)
       = Finite 25
   \<and> handleSeek 300
        ((mount (sample_video\<lparr>el_currentTime := 7\<rparr>) sample_rect)\<lparr>currentTime := 7\<rparr>)
       = Inr ((mount (sample_video\<lparr>el_currentTime := 7\<rparr>) sample_rect)
                \<lparr>currentTime := 7, videoRef := Some (sample_video\<lparr>el_currentTime := 0\<rparr>)\<rparr>)
   \<and> handleSeek 900
        ((mount (sample_video\<lparr>el_currentTime := 7\<rparr>) sample_rect)\<lparr>currentTime := 7\<rparr>)
       = Inr ((mount (sample_video\<lparr>el_currentTime := 7\<rparr>) sample_rect)
                \<lparr>currentTime := 7, videoRef := Some (sample_video\<lparr>el_currentTime := 0\<rparr>)\<rparr>)"
proof -
  let ?v = "sample_video\<lparr>el_currentTime := 7\<rparr>"
  let ?s = "(mount ?v sample_rect)\<lparr>currentTime := 7\<rparr>"
  let ?k = "(mount sample_video sample_rect)\<lparr>currentTime := 30, duration := 120\<rparr>"
  have a: "duration ?s = 0" "progressBarRef ?s = Some sample_rect" "videoRef ?s = Some ?v"
          "rect_width sample_rect \<noteq> 0"
    by (simp_all add: mount_def initial_def sample_rect_def)
  have b: "js_divide 7 0 = NonFinite"
    by (simp add: js_divide_def)
  have c: "0 < duration ?k" "currentTime ?k / duration ?k * 100 = 25"
    by simp_all
  from progress_without_duration [of ?s sample_rect ?v 300]
       progress_without_duration [of ?s sample_rect ?v 900]
       progress_without_duration [of ?k] a b c
  show ?thesis by simp
qed

end
